theory Spec2Isabelle
  imports Main "HOL-Library.Word" "HOL-Library.Multiset"
begin

section \<open>The CSV scanner of sensor\_data\_import (scanner/csv\_scanner.go)\<close>

text \<open>
  The scanner's functions are embedded one by one, under their own names. What the scanner
  calls but does not define is passed in:
  \<^item> the functions of the Go standard library and of the operating system are the fields
    of a record \<open>golib\<close>, the first argument \<open>L\<close> of every function that calls one;
  \<^item> the database handle \<open>cs.db\<close> is a record \<open>gorm\<close> of two operations on a
    database state, the argument \<open>G\<close>.
  Every theorem below holds for all such \<open>L\<close> and \<open>G\<close>. Of the logger's output the
  warnings (\<open>logger.Warnf\<close>) and the totals of the summary are kept, as values.
\<close>

subsection \<open>Data\<close>

text \<open>
  Go's \<open>int\<close> and \<open>time.Duration\<close> (an \<open>int64\<close>) on a 64-bit platform: addition
  wraps around, \<open>sint\<close> reads the signed value.
\<close>

type_synonym go_int = "64 word"

text \<open>
  Go's \<open>error\<close> values: \<open>Lib\<close> is an error returned by a library, the operating system
  or the database; the others are the ones the scanner builds with \<open>fmt.Errorf\<close>, named by
  their message, with the wrapped error (\<open>%w\<close>) as argument.
\<close>

datatype error =
    Lib string
  | directory_does_not_exist string
  | failed_to_find_CSV_files error
  | failed_to_open_file error
  | failed_to_read_CSV error
  | empty_CSV_file
  | failed_to_insert_data error
  | failed_to_insert_any_records error

text \<open>
  \<open>models.SensorData\<close>. The scanner sets the three fields below; \<open>ID\<close> and
  \<open>CreatedAt\<close> are left to the database (\<open>autoIncrement\<close>, \<open>autoCreateTime\<close>).
\<close>

record ('t, 'f) SensorData =
  Timestamp :: 't
  SensorName :: string
  Value :: 'f

record FileJob =
  FilePath :: string
  FileName :: string

record ProcessResult =
  FilePath :: string
  RecordCount :: go_int
  ErrorCount :: go_int
  Duration :: go_int
  Error :: "error option"

record DirEntry =
  Name :: string
  IsDir :: bool

text \<open>
  The warnings of the scanner, one constructor for each \<open>logger.Warnf\<close> call, with the
  arguments of the call (the row number is the 1-based \<open>i+1\<close>).
\<close>

datatype ('t, 'f) warning =
    insufficient_columns nat string nat
  | invalid_timestamp_format nat string string
  | empty_sensor_name nat string
  | invalid_value nat string string
  | failed_to_insert_record "('t, 'f) SensorData" error

subsection \<open>What the scanner calls\<close>

text \<open>
  The standard library and the operating system. \<open>time.Parse\<close> and
  \<open>strconv.ParseFloat\<close> return \<open>None\<close> where Go returns a non-nil error (the scanner
  only tests it against \<open>nil\<close>); \<open>os.Stat\<close> returns its error, if any.
\<close>

record ('t, 'f, 'h) golib =
  strings_TrimSpace :: "string \<Rightarrow> string"
  strings_ToLower :: "string \<Rightarrow> string"
  time_Parse :: "string \<Rightarrow> string \<Rightarrow> 't option"
  time_UTC :: "'t \<Rightarrow> 't"
  strconv_ParseFloat :: "string \<Rightarrow> nat \<Rightarrow> 'f option"
  filepath_Ext :: "string \<Rightarrow> string"
  filepath_Join :: "string \<Rightarrow> string \<Rightarrow> string"
  os_Stat :: "string \<Rightarrow> error option"
  os_IsNotExist :: "error \<Rightarrow> bool"
  os_ReadDir :: "string \<Rightarrow> error + DirEntry list"
  os_Open :: "string \<Rightarrow> error + 'h"
  csv_ReadAll :: "'h \<Rightarrow> error + string list list"

text \<open>
  The database handle: \<open>db.CreateInBatches(batch, batchSize).Error\<close> and
  \<open>db.Create(&record).Error\<close>, each from a database state to the error (\<open>None\<close> for
  \<open>nil\<close>) and the state after the call.
\<close>

record ('db, 'r) gorm =
  db_CreateInBatches :: "'db \<Rightarrow> 'r list \<Rightarrow> nat \<Rightarrow> error option \<times> 'db"
  db_Create :: "'db \<Rightarrow> 'r \<Rightarrow> error option \<times> 'db"

text \<open>The layouts the scanner passes to \<open>time.Parse\<close>; the first is \<open>time.RFC3339\<close>.\<close>

definition RFC3339 :: string where
  "RFC3339 = ''2006-01-02T15:04:05Z07:00''"

text \<open>
  \<open>strings.Contains(s, substr)\<close>: Go strings are byte sequences and \<open>substr\<close> is
  looked for as a run of consecutive bytes.
\<close>

fun strings_HasPrefix :: "string \<Rightarrow> string \<Rightarrow> bool" where
  "strings_HasPrefix s [] = True"
| "strings_HasPrefix [] (p # ps) = False"
| "strings_HasPrefix (c # s) (p # ps) = (c = p \<and> strings_HasPrefix s ps)"

fun strings_Contains :: "string \<Rightarrow> string \<Rightarrow> bool" where
  "strings_Contains [] substr = (substr = [])"
| "strings_Contains (c # s) substr =
     (strings_HasPrefix (c # s) substr \<or> strings_Contains s substr)"

subsection \<open>Parsing the rows of one file\<close>

definition headerWords :: "string list" where
  "headerWords = [''timestamp'', ''time'', ''date'', ''datetime'']"

text \<open>\<open>isHeaderRow\<close>: the loop over \<open>headerWords\<close> returns at the first word found.\<close>

definition isHeaderRow :: "('t, 'f, 'h) golib \<Rightarrow> string list \<Rightarrow> bool" where
  "isHeaderRow L row =
     (if length row < 3 then False
      else
        let firstCol = strings_ToLower L (strings_TrimSpace L (row ! 0)) in
        if list_ex (\<lambda>word. strings_Contains firstCol word) headerWords then True
        else time_Parse L RFC3339 (strings_TrimSpace L (row ! 0)) = None)"

text \<open>
  The body of the loop of \<open>parseCSVRecords\<close> at row \<open>i\<close>, on the three variables the
  loop changes: the readings, the error count and the warnings logged so far. Each
  \<open>continue\<close> is a branch that returns. The error count is at most the number of rows,
  so it is a \<open>nat\<close> here and becomes a \<open>go_int\<close> when it is stored in the result.
\<close>

fun parseCSVRecords_body ::
  "('t, 'f, 'h) golib \<Rightarrow> string \<Rightarrow> nat \<Rightarrow> string list \<Rightarrow>
   ('t, 'f) SensorData list \<times> nat \<times> ('t, 'f) warning list \<Rightarrow>
   ('t, 'f) SensorData list \<times> nat \<times> ('t, 'f) warning list" where
  "parseCSVRecords_body L fileName i record (sensorData, errorCount, log) =
     (if length record = 0 \<or> (length record = 1 \<and> strings_TrimSpace L (record ! 0) = [])
      then (sensorData, errorCount, log)
      else if length record < 3
      then (sensorData, errorCount + 1,
            log @ [insufficient_columns (i + 1) fileName (length record)])
      else
        let timestampStr = strings_TrimSpace L (record ! 0) in
        case (case time_Parse L RFC3339 timestampStr of
                Some t \<Rightarrow> Some t
              | None \<Rightarrow>
                  (case time_Parse L ''2006-01-02T15:04:05'' timestampStr of
                     Some t \<Rightarrow> Some t
                   | None \<Rightarrow> time_Parse L ''2006-01-02 15:04:05'' timestampStr)) of
          None \<Rightarrow>
            (sensorData, errorCount + 1,
             log @ [invalid_timestamp_format (i + 1) fileName timestampStr])
        | Some timestamp \<Rightarrow>
            (let sensorName = strings_TrimSpace L (record ! 1) in
             if sensorName = []
             then (sensorData, errorCount + 1, log @ [empty_sensor_name (i + 1) fileName])
             else
               (let valueStr = strings_TrimSpace L (record ! 2) in
                (case strconv_ParseFloat L valueStr 64 of
                   None \<Rightarrow>
                     (sensorData, errorCount + 1,
                      log @ [invalid_value (i + 1) fileName valueStr])
                 | Some v \<Rightarrow>
                     (sensorData @
                        [\<lparr>Timestamp = time_UTC L timestamp, SensorName = sensorName,
                          Value = v\<rparr>],
                      errorCount, log)))))"

text \<open>The loop \<open>for i := startRow; i < len(records); i++\<close>.\<close>

function parseCSVRecords_loop ::
  "('t, 'f, 'h) golib \<Rightarrow> string list list \<Rightarrow> string \<Rightarrow> nat \<Rightarrow>
   ('t, 'f) SensorData list \<times> nat \<times> ('t, 'f) warning list \<Rightarrow>
   ('t, 'f) SensorData list \<times> nat \<times> ('t, 'f) warning list" where
  "parseCSVRecords_loop L records fileName i acc =
     (if i < length records
      then parseCSVRecords_loop L records fileName (i + 1)
             (parseCSVRecords_body L fileName i (records ! i) acc)
      else acc)"
  by pat_completeness auto
termination
  by (relation "measure (\<lambda>(L, records, fileName, i, acc). length records - i)") auto

definition parseCSVRecords ::
  "('t, 'f, 'h) golib \<Rightarrow> string list list \<Rightarrow> string \<Rightarrow>
   ('t, 'f) SensorData list \<times> nat \<times> ('t, 'f) warning list" where
  "parseCSVRecords L records fileName =
     (let startRow = (if length records > 0 \<and> isHeaderRow L (records ! 0) then 1 else 0)
      in parseCSVRecords_loop L records fileName startRow ([], 0, []))"

subsection \<open>Persistence\<close>

text \<open>
  The loop of \<open>individualInsert\<close> over the records, on \<open>lastError\<close>,
  \<open>successCount\<close> (at most the number of records, a \<open>nat\<close>), the database and the
  warnings.
\<close>

fun individualInsert_loop ::
  "('db, ('t, 'f) SensorData) gorm \<Rightarrow> ('t, 'f) SensorData list \<Rightarrow>
   error option \<times> nat \<times> 'db \<times> ('t, 'f) warning list \<Rightarrow>
   error option \<times> nat \<times> 'db \<times> ('t, 'f) warning list" where
  "individualInsert_loop G [] st = st"
| "individualInsert_loop G (record # rest) (lastError, successCount, db, log) =
     (case db_Create G db record of
        (Some err, db') \<Rightarrow>
          individualInsert_loop G rest
            (Some err, successCount, db', log @ [failed_to_insert_record record err])
      | (None, db') \<Rightarrow>
          individualInsert_loop G rest (lastError, successCount + 1, db', log))"

definition individualInsert ::
  "('db, ('t, 'f) SensorData) gorm \<Rightarrow> 'db \<Rightarrow> ('t, 'f) SensorData list \<Rightarrow>
   error option \<times> 'db \<times> ('t, 'f) warning list" where
  "individualInsert G db data =
     (case individualInsert_loop G data (None, 0, db, []) of
        (lastError, successCount, db', log) \<Rightarrow>
          (case lastError of
             Some err \<Rightarrow>
               if successCount = 0 then (Some (failed_to_insert_any_records err), db', log)
               else (None, db', log)
           | None \<Rightarrow> (None, db', log)))"

definition batchSize :: nat where
  "batchSize = 1000"

text \<open>
  The loop \<open>for i := 0; i < len(data); i += batchSize\<close> of \<open>batchInsertSensorData\<close>;
  \<open>batch\<close> is the slice \<open>data[i:end]\<close>. A failed batch returns what
  \<open>individualInsert\<close> returns for it.
\<close>

function batchInsertSensorData_loop ::
  "('db, ('t, 'f) SensorData) gorm \<Rightarrow> ('t, 'f) SensorData list \<Rightarrow> nat \<Rightarrow> 'db \<Rightarrow>
   error option \<times> 'db \<times> ('t, 'f) warning list" where
  "batchInsertSensorData_loop G data i db =
     (if i < length data
      then
        let end = (if i + batchSize > length data then length data else i + batchSize);
            batch = take (end - i) (drop i data)
        in case db_CreateInBatches G db batch batchSize of
             (Some err, db') \<Rightarrow> individualInsert G db' batch
           | (None, db') \<Rightarrow> batchInsertSensorData_loop G data (i + batchSize) db'
      else (None, db, []))"
  by pat_completeness auto
termination
  by (relation "measure (\<lambda>(G, data, i, db). length data - i)")
     (auto simp: batchSize_def)

definition batchInsertSensorData ::
  "('db, ('t, 'f) SensorData) gorm \<Rightarrow> 'db \<Rightarrow> ('t, 'f) SensorData list \<Rightarrow>
   error option \<times> 'db \<times> ('t, 'f) warning list" where
  "batchInsertSensorData G db data = batchInsertSensorData_loop G data 0 db"

subsection \<open>One file\<close>

text \<open>
  \<open>processCSVFile\<close>. \<open>elapsed\<close> is what \<open>time.Since(startTime)\<close> returns where
  the function reads it. The reader is set to accept any number of fields in a row
  (\<open>FieldsPerRecord = -1\<close>).
\<close>

definition processCSVFile ::
  "('t, 'f, 'h) golib \<Rightarrow> ('db, ('t, 'f) SensorData) gorm \<Rightarrow> go_int \<Rightarrow> 'db \<Rightarrow> FileJob \<Rightarrow>
   ProcessResult \<times> 'db \<times> ('t, 'f) warning list" where
  "processCSVFile L G elapsed db job =
     (let result = \<lparr>FilePath = FileJob.FilePath job, RecordCount = 0, ErrorCount = 0,
                     Duration = 0, Error = None\<rparr>
      in case os_Open L (FileJob.FilePath job) of
           Inl err \<Rightarrow>
             (result\<lparr>Error := Some (failed_to_open_file err), Duration := elapsed\<rparr>, db, [])
         | Inr file \<Rightarrow>
             (case csv_ReadAll L file of
                Inl err \<Rightarrow>
                  (result\<lparr>Error := Some (failed_to_read_CSV err), Duration := elapsed\<rparr>,
                   db, [])
              | Inr records \<Rightarrow>
                  if length records = 0
                  then (result\<lparr>Error := Some empty_CSV_file, Duration := elapsed\<rparr>, db, [])
                  else
                    (case parseCSVRecords L records (FileName job) of
                       (sensorData, errorCount, log) \<Rightarrow>
                         let result = result\<lparr>RecordCount := of_nat (length sensorData),
                                              ErrorCount := of_nat errorCount\<rparr>
                         in if length sensorData > 0
                            then
                              (case batchInsertSensorData G db sensorData of
                                 (Some err, db', log') \<Rightarrow>
                                   (result\<lparr>Error := Some (failed_to_insert_data err),
                                           Duration := elapsed\<rparr>, db', log @ log')
                               | (None, db', log') \<Rightarrow>
                                   (result\<lparr>Duration := elapsed\<rparr>, db', log @ log'))
                            else (result\<lparr>Duration := elapsed\<rparr>, db, log))))"

subsection \<open>The summary\<close>

text \<open>The six totals that \<open>displaySummary\<close> computes and prints.\<close>

record Summary =
  totalFiles :: go_int
  totalRecords :: go_int
  totalErrors :: go_int
  successfulFiles :: go_int
  failedFiles :: go_int
  totalDuration :: go_int

fun displaySummary_loop :: "ProcessResult list \<Rightarrow> Summary \<Rightarrow> Summary" where
  "displaySummary_loop [] s = s"
| "displaySummary_loop (result # rest) s =
     displaySummary_loop rest
       ((if Error result \<noteq> None
         then s\<lparr>failedFiles := failedFiles s + 1\<rparr>
         else s\<lparr>successfulFiles := successfulFiles s + 1,
                totalRecords := totalRecords s + RecordCount result,
                totalErrors := totalErrors s + ErrorCount result\<rparr>)
        \<lparr>totalDuration := totalDuration s + Duration result\<rparr>)"

definition displaySummary :: "ProcessResult list \<Rightarrow> Summary" where
  "displaySummary results =
     displaySummary_loop results
       \<lparr>totalFiles = of_nat (length results), totalRecords = 0, totalErrors = 0,
        successfulFiles = 0, failedFiles = 0, totalDuration = 0\<rparr>"

subsection \<open>The directory\<close>

fun findCSVFiles_loop ::
  "('t, 'f, 'h) golib \<Rightarrow> string \<Rightarrow> DirEntry list \<Rightarrow> FileJob list \<Rightarrow> FileJob list" where
  "findCSVFiles_loop L directoryPath [] csvFiles = csvFiles"
| "findCSVFiles_loop L directoryPath (entry # entries) csvFiles =
     (if IsDir entry then findCSVFiles_loop L directoryPath entries csvFiles
      else if strings_ToLower L (filepath_Ext L (Name entry)) = ''.csv''
      then findCSVFiles_loop L directoryPath entries
             (csvFiles @ [\<lparr>FileJob.FilePath = filepath_Join L directoryPath (Name entry),
                            FileName = Name entry\<rparr>])
      else findCSVFiles_loop L directoryPath entries csvFiles)"

definition findCSVFiles :: "('t, 'f, 'h) golib \<Rightarrow> string \<Rightarrow> error + FileJob list" where
  "findCSVFiles L directoryPath =
     (case os_ReadDir L directoryPath of
        Inl err \<Rightarrow> Inl err
      | Inr entries \<Rightarrow> Inr (findCSVFiles_loop L directoryPath entries []))"

text \<open>
  \<open>processFilesParallel\<close> in the run where the jobs are processed one after the other in
  the order of the queue and the results arrive in that order, which is what a pool of one
  worker does. With more workers the results arrive in any order and the database calls of
  different files interleave; those runs are not modelled. \<open>elapsed\<close> gives the duration
  measured for each job.
\<close>

fun processFilesParallel ::
  "('t, 'f, 'h) golib \<Rightarrow> ('db, ('t, 'f) SensorData) gorm \<Rightarrow> (FileJob \<Rightarrow> go_int) \<Rightarrow> 'db \<Rightarrow>
   FileJob list \<Rightarrow> ProcessResult list \<times> 'db \<times> ('t, 'f) warning list" where
  "processFilesParallel L G elapsed db [] = ([], db, [])"
| "processFilesParallel L G elapsed db (job # files) =
     (case processCSVFile L G (elapsed job) db job of
        (result, db', log) \<Rightarrow>
          (case processFilesParallel L G elapsed db' files of
             (allResults, db'', log') \<Rightarrow> (result # allResults, db'', log @ log')))"

text \<open>
  \<open>ScanDirectory\<close> returns its error; the model returns with it the database after
  the scan, the summary if one was displayed, and the warnings.
\<close>

definition ScanDirectory ::
  "('t, 'f, 'h) golib \<Rightarrow> ('db, ('t, 'f) SensorData) gorm \<Rightarrow> (FileJob \<Rightarrow> go_int) \<Rightarrow> 'db \<Rightarrow>
   string \<Rightarrow> error option \<times> 'db \<times> Summary option \<times> ('t, 'f) warning list" where
  "ScanDirectory L G elapsed db directoryPath =
     (if (case os_Stat L directoryPath of
            Some err \<Rightarrow> os_IsNotExist L err
          | None \<Rightarrow> False)
      then (Some (directory_does_not_exist directoryPath), db, None, [])
      else
        case findCSVFiles L directoryPath of
          Inl err \<Rightarrow> (Some (failed_to_find_CSV_files err), db, None, [])
        | Inr csvFiles \<Rightarrow>
            if length csvFiles = 0 then (None, db, None, [])
            else
              (case processFilesParallel L G elapsed db csvFiles of
                 (results, db', log) \<Rightarrow> (None, db', Some (displaySummary results), log)))"

subsection \<open>An executable library, file system and database\<close>

text \<open>
  To run the scanner on concrete files the record \<open>L\<close> is filled with executable
  functions, \<open>go_lib disk\<close>. They answer as Go does on the inputs they are written for:
  ASCII text; timestamps of the shapes \<open>YYYY-MM-DDTHH:MM:SS\<close> followed by \<open>Z\<close> or
  \<open>+hh:mm\<close> or \<open>-hh:mm\<close>, \<open>YYYY-MM-DDTHH:MM:SS\<close> and \<open>YYYY-MM-DD HH:MM:SS\<close>;
  decimal numbers without exponent and the special values; CSV text without quotes; clean
  Unix paths. On other inputs Go accepts more than they do (fractional seconds, exponents,
  quoted fields). They are used at concrete inputs only; no theorem about the scanner
  assumes them.
\<close>

definition is_space :: "char \<Rightarrow> bool" where
  "is_space c = (c \<in> set [CHR '' '', CHR 0x09, CHR 0x0A, CHR 0x0B, CHR 0x0C, CHR 0x0D])"

definition ascii_TrimSpace :: "string \<Rightarrow> string" where
  "ascii_TrimSpace s = rev (dropWhile is_space (rev (dropWhile is_space s)))"

definition ascii_lower :: "char \<Rightarrow> char" where
  "ascii_lower c =
     (case map_of (zip ''ABCDEFGHIJKLMNOPQRSTUVWXYZ'' ''abcdefghijklmnopqrstuvwxyz'') c of
        Some l \<Rightarrow> l
      | None \<Rightarrow> c)"

definition ascii_ToLower :: "string \<Rightarrow> string" where
  "ascii_ToLower s = map ascii_lower s"

definition digit :: "char \<Rightarrow> nat option" where
  "digit c = map_of (zip ''0123456789'' [0, 1, 2, 3, 4, 5, 6, 7, 8, 9]) c"

text \<open>\<open>digits n s\<close> reads exactly \<open>n\<close> decimal digits; \<open>lit c s\<close> reads the byte \<open>c\<close>.\<close>

fun digits :: "nat \<Rightarrow> nat \<Rightarrow> string \<Rightarrow> (nat \<times> string) option" where
  "digits 0 acc s = Some (acc, s)"
| "digits (Suc n) acc [] = None"
| "digits (Suc n) acc (c # s) =
     (case digit c of None \<Rightarrow> None | Some d \<Rightarrow> digits n (10 * acc + d) s)"

fun lit :: "char \<Rightarrow> string \<Rightarrow> string option" where
  "lit c [] = None"
| "lit c (d # s) = (if c = d then Some s else None)"

text \<open>An instant: seconds since 1970-01-01T00:00:00Z, and the offset of its zone in seconds.\<close>

datatype go_time = Time (unix: int) (zone_offset: int)

definition days_from_civil :: "int \<Rightarrow> int \<Rightarrow> int \<Rightarrow> int" where
  "days_from_civil y m d =
     (let y' = (if m \<le> 2 then y - 1 else y);
          era = y' div 400;
          yoe = y' - era * 400;
          doy = (153 * (if m > 2 then m - 3 else m + 9) + 2) div 5 + d - 1;
          doe = yoe * 365 + yoe div 4 - yoe div 100 + doy
      in era * 146097 + doe - 719468)"

definition days_in :: "nat \<Rightarrow> nat \<Rightarrow> nat" where
  "days_in y m =
     (if m = 2 then (if y mod 4 = 0 \<and> (y mod 100 \<noteq> 0 \<or> y mod 400 = 0) then 29 else 28)
      else if m \<in> set [4, 6, 9, 11] then 30 else 31)"

text \<open>The date and the time of day, with \<open>sep\<close> between them; the seconds and the rest.\<close>

definition date_time :: "char \<Rightarrow> string \<Rightarrow> (int \<times> string) option" where
  "date_time sep s0 =
     Option.bind (digits 4 0 s0) (\<lambda>(y, s1).
     Option.bind (lit CHR ''-'' s1) (\<lambda>s2.
     Option.bind (digits 2 0 s2) (\<lambda>(m, s3).
     Option.bind (lit CHR ''-'' s3) (\<lambda>s4.
     Option.bind (digits 2 0 s4) (\<lambda>(d, s5).
     Option.bind (lit sep s5) (\<lambda>s6.
     Option.bind (digits 2 0 s6) (\<lambda>(h, s7).
     Option.bind (lit CHR '':'' s7) (\<lambda>s8.
     Option.bind (digits 2 0 s8) (\<lambda>(mi, s9).
     Option.bind (lit CHR '':'' s9) (\<lambda>s10.
     Option.bind (digits 2 0 s10) (\<lambda>(sec, s11).
       if 1 \<le> m \<and> m \<le> 12 \<and> 1 \<le> d \<and> d \<le> days_in y m \<and> h < 24 \<and> mi < 60 \<and> sec < 60
       then Some (days_from_civil (int y) (int m) (int d) * 86400
                    + int h * 3600 + int mi * 60 + int sec, s11)
       else None)))))))))))"

definition zone :: "string \<Rightarrow> int option" where
  "zone s =
     (if s = ''Z'' then Some 0
      else case s of
        [] \<Rightarrow> None
      | c # s1 \<Rightarrow>
          if c = CHR ''+'' \<or> c = CHR ''-'' then
            Option.bind (digits 2 0 s1) (\<lambda>(h, s2).
            Option.bind (lit CHR '':'' s2) (\<lambda>s3.
            Option.bind (digits 2 0 s3) (\<lambda>(mi, s4).
              if s4 = [] \<and> h < 24 \<and> mi < 60
              then Some ((if c = CHR ''-'' then -1 else 1) * (int h * 3600 + int mi * 60))
              else None)))
          else None)"

definition canonical_time_Parse :: "string \<Rightarrow> string \<Rightarrow> go_time option" where
  "canonical_time_Parse layout s =
     (if layout = RFC3339 then
        Option.bind (date_time CHR ''T'' s) (\<lambda>(secs, rest).
        Option.bind (zone rest) (\<lambda>off. Some (Time (secs - off) off)))
      else if layout = ''2006-01-02T15:04:05'' then
        Option.bind (date_time CHR ''T'' s) (\<lambda>(secs, rest).
          if rest = [] then Some (Time secs 0) else None)
      else if layout = ''2006-01-02 15:04:05'' then
        Option.bind (date_time CHR '' '' s) (\<lambda>(secs, rest).
          if rest = [] then Some (Time secs 0) else None)
      else None)"

definition go_time_UTC :: "go_time \<Rightarrow> go_time" where
  "go_time_UTC t = Time (unix t) 0"

text \<open>
  A \<open>float64\<close>: \<open>Nearest neg m k\<close> is the value nearest to \<open>m / 10^k\<close>, negated if
  \<open>neg\<close>; the others are the special values.
\<close>

datatype float64 = Nearest bool nat nat | Inf bool | NaN

fun all_digits :: "nat \<Rightarrow> string \<Rightarrow> nat option" where
  "all_digits acc [] = Some acc"
| "all_digits acc (c # s) =
     (case digit c of None \<Rightarrow> None | Some d \<Rightarrow> all_digits (10 * acc + d) s)"

text \<open>
  \<open>strconv.ParseFloat(s, 64)\<close> on a sign, digits and at most one point, and on
  \<open>inf\<close>, \<open>infinity\<close> (with a sign or not) and \<open>nan\<close> in any case. A number
  that rounds to an infinity is an error (out of range); one with at most 308 digits
  before the point is below \<open>10^308\<close> and does not.
\<close>

definition decimal_ParseFloat :: "string \<Rightarrow> nat \<Rightarrow> float64 option" where
  "decimal_ParseFloat s bitSize =
     (let neg = (s \<noteq> [] \<and> hd s = CHR ''-'');
          signed = (s \<noteq> [] \<and> (hd s = CHR ''+'' \<or> hd s = CHR ''-''));
          body = (if signed then tl s else s);
          low = ascii_ToLower body
      in if low = ''inf'' \<or> low = ''infinity'' then Some (Inf neg)
         else if \<not> signed \<and> low = ''nan'' then Some NaN
         else
           let int_part = takeWhile (\<lambda>c. c \<noteq> CHR ''.'') body;
               frac_part = drop (length int_part + 1) body
           in if int_part @ frac_part = [] then None
              else case all_digits 0 (int_part @ frac_part) of
                None \<Rightarrow> None
              | Some m \<Rightarrow>
                  if length int_part \<le> 308 then Some (Nearest neg m (length frac_part))
                  else if m \<ge> (2 ^ 1024 - 2 ^ 970) * 10 ^ length frac_part then None
                  else Some (Nearest neg m (length frac_part)))"

text \<open>\<open>filepath.Ext\<close> scans back from the end to the last dot of the last path element.\<close>

fun Ext_scan :: "string \<Rightarrow> string \<Rightarrow> string" where
  "Ext_scan [] suffix = []"
| "Ext_scan (c # front) suffix =
     (if c = CHR ''/'' then []
      else if c = CHR ''.'' then c # suffix
      else Ext_scan front (c # suffix))"

definition unix_Ext :: "string \<Rightarrow> string" where
  "unix_Ext path = Ext_scan (rev path) []"

definition unix_Join :: "string \<Rightarrow> string \<Rightarrow> string" where
  "unix_Join dir name = dir @ ''/'' @ name"

text \<open>The CSV reader on text without quotes: lines at \<open>\n\<close>, empty lines skipped.\<close>

fun split_on :: "char \<Rightarrow> string \<Rightarrow> string \<Rightarrow> string list" where
  "split_on sep cur [] = [rev cur]"
| "split_on sep cur (c # s) =
     (if c = sep then rev cur # split_on sep [] s else split_on sep (c # cur) s)"

definition strip_cr :: "string \<Rightarrow> string" where
  "strip_cr l = (if l \<noteq> [] \<and> last l = CHR 0x0D then butlast l else l)"

definition plain_csv_ReadAll :: "string \<Rightarrow> error + string list list" where
  "plain_csv_ReadAll text =
     (if CHR 0x22 \<in> set text then Inl (Lib ''quoted field'')
      else Inr (map (split_on CHR '','' [])
                  (filter (\<lambda>l. l \<noteq> []) (map strip_cr (split_on CHR 0x0A [] text)))))"

text \<open>A file system: the directories with their entries, and the files with their text.\<close>

record disk =
  directories :: "(string \<times> DirEntry list) list"
  files :: "(string \<times> string) list"

definition ENOENT :: error where
  "ENOENT = Lib ''no such file or directory''"

definition ENOTDIR :: error where
  "ENOTDIR = Lib ''not a directory''"

definition go_lib :: "disk \<Rightarrow> (go_time, float64, string) golib" where
  "go_lib d =
     \<lparr>strings_TrimSpace = ascii_TrimSpace,
      strings_ToLower = ascii_ToLower,
      time_Parse = canonical_time_Parse,
      time_UTC = go_time_UTC,
      strconv_ParseFloat = decimal_ParseFloat,
      filepath_Ext = unix_Ext,
      filepath_Join = unix_Join,
      os_Stat = (\<lambda>p. if map_of (directories d) p \<noteq> None \<or> map_of (files d) p \<noteq> None
                      then None else Some ENOENT),
      os_IsNotExist = (\<lambda>e. e = ENOENT),
      os_ReadDir = (\<lambda>p. case map_of (directories d) p of
                           Some entries \<Rightarrow> Inr entries
                         | None \<Rightarrow>
                             if map_of (files d) p \<noteq> None then Inl ENOTDIR else Inl ENOENT),
      os_Open = (\<lambda>p. case map_of (files d) p of
                        Some text \<Rightarrow> Inr text
                      | None \<Rightarrow> Inl ENOENT),
      csv_ReadAll = plain_csv_ReadAll\<rparr>"

text \<open>
  Modelled from the spec: the Persistence Layer, which is outside the repository. The
  store is the list of the rows of table \<open>sensor_data\<close>; the pair (timestamp,
  sensor\_name) is unique in it (the \<open>uniqueIndex\<close> of \<open>models.SensorData\<close>).
  \<open>Insert\<close> fails on a record whose pair is in the store; \<open>BatchInsert\<close> is atomic
  and fails entirely on any single conflicting record. They fail in no other way.
\<close>

definition key :: "('t, 'f) SensorData \<Rightarrow> 't \<times> string" where
  "key r = (Timestamp r, SensorName r)"

definition duplicate_key :: error where
  "duplicate_key = Lib ''duplicate key''"

definition store_Create ::
  "('t, 'f) SensorData list \<Rightarrow> ('t, 'f) SensorData \<Rightarrow> error option \<times> ('t, 'f) SensorData list"
  where
  "store_Create db r =
     (if key r \<in> set (map key db) then (Some duplicate_key, db) else (None, db @ [r]))"

definition store_CreateInBatches ::
  "('t, 'f) SensorData list \<Rightarrow> ('t, 'f) SensorData list \<Rightarrow> nat \<Rightarrow>
   error option \<times> ('t, 'f) SensorData list" where
  "store_CreateInBatches db batch n =
     (if distinct (map key batch) \<and> list_all (\<lambda>r. key r \<notin> set (map key db)) batch
      then (None, db @ batch)
      else (Some duplicate_key, db))"

definition store :: "(('t, 'f) SensorData list, ('t, 'f) SensorData) gorm" where
  "store = \<lparr>db_CreateInBatches = store_CreateInBatches, db_Create = store_Create\<rparr>"

subsection \<open>Concrete inputs\<close>

text \<open>A failed and a successful result, for the summary.\<close>

definition result_failed :: ProcessResult where
  "result_failed =
     \<lparr>FilePath = ''data/empty.csv'', RecordCount = 0, ErrorCount = 0, Duration = 5,
      Error = Some empty_CSV_file\<rparr>"

definition result_ok :: ProcessResult where
  "result_ok =
     \<lparr>FilePath = ''data/a.csv'', RecordCount = 2, ErrorCount = 1, Duration = 7,
      Error = None\<rparr>"

text \<open>A file system with nothing in it, for the functions that read no file.\<close>

definition empty_disk :: disk where
  "empty_disk = \<lparr>directories = [], files = []\<rparr>"

definition header_row :: "string list" where
  "header_row = [''Timestamp'', ''sensor_name'', ''value'']"

text \<open>Two data rows whose timestamps are in the space-separated format, and no header.\<close>

definition space_separated_rows :: "string list list" where
  "space_separated_rows =
     [[''2025-09-05 08:00:00'', ''temp_01'', ''21.8''],
      [''2025-09-05 08:05:00'', ''temp_01'', ''22.1'']]"

text \<open>
  A header, a row in the space-separated format, a row whose timestamp is in none of the
  formats, and a row whose value is not a number.
\<close>

definition mixed_rows :: "string list list" where
  "mixed_rows =
     [[''timestamp'', ''sensor_name'', ''value''],
      [''2025-09-05 08:00:00'', ''temp_01'', ''21.8''],
      [''05/09/2025'', ''temp_01'', ''21.8''],
      [''2025-09-05T08:10:00Z'', ''temp_01'', ''abc'']]"

text \<open>The file of the three bad rows: its rows, its text, and a disk that holds it.\<close>

definition three_rows :: "string list list" where
  "three_rows =
     [[''bad_ts'', ''temp_01'', ''21.8''],
      [''2025-09-05T08:00:00Z'', [], ''21.8''],
      [''2025-09-05T08:00:00Z'', ''temp_01'', ''notanumber'']]"

definition three_rows_text :: string where
  "three_rows_text =
     ''bad_ts,temp_01,21.8'' @ [CHR 0x0A] @
     ''2025-09-05T08:00:00Z,,21.8'' @ [CHR 0x0A] @
     ''2025-09-05T08:00:00Z,temp_01,notanumber'' @ [CHR 0x0A]"

definition three_rows_disk :: disk where
  "three_rows_disk =
     \<lparr>directories = [(''data'', [\<lparr>Name = ''three.csv'', IsDir = False\<rparr>])],
      files = [(''data/three.csv'', three_rows_text)]\<rparr>"

definition three_rows_job :: FileJob where
  "three_rows_job = \<lparr>FileJob.FilePath = ''data/three.csv'', FileName = ''three.csv''\<rparr>"

(*DEFS-END*)

section \<open>Properties\<close>

subsection \<open>Unfolding the loops\<close>

declare parseCSVRecords_loop.simps [simp del]
declare batchInsertSensorData_loop.simps [simp del]

lemma parseCSVRecords_loop_step:
  "i < length records \<Longrightarrow>
   parseCSVRecords_loop L records fileName i acc =
   parseCSVRecords_loop L records fileName (Suc i)
     (parseCSVRecords_body L fileName i (records ! i) acc)"
  by (subst parseCSVRecords_loop.simps) simp

lemma parseCSVRecords_loop_end:
  "\<not> i < length records \<Longrightarrow> parseCSVRecords_loop L records fileName i acc = acc"
  by (subst parseCSVRecords_loop.simps) simp

text \<open>The loop applies the body to the rows \<open>i\<close>, \<open>i+1\<close>, ... in this order.\<close>

lemma parseCSVRecords_loop_fold:
  "parseCSVRecords_loop L records fileName i acc =
   fold (\<lambda>j. parseCSVRecords_body L fileName j (records ! j)) [i..<length records] acc"
proof (induction "length records - i" arbitrary: i acc)
  case 0
  then show ?case by (simp add: parseCSVRecords_loop_end)
next
  case (Suc n)
  then have lt: "i < length records" by simp
  from Suc have "n = length records - Suc i" by simp
  from Suc.hyps(1) [OF this]
  show ?case using lt by (simp add: parseCSVRecords_loop_step upt_conv_Cons)
qed

subsection \<open>The summary\<close>

lemma displaySummary_loop_closed:
  "displaySummary_loop rs s =
     \<lparr>totalFiles = totalFiles s,
      totalRecords =
        totalRecords s + sum_list (map RecordCount (filter (\<lambda>r. Error r = None) rs)),
      totalErrors =
        totalErrors s + sum_list (map ErrorCount (filter (\<lambda>r. Error r = None) rs)),
      successfulFiles =
        successfulFiles s + of_nat (length (filter (\<lambda>r. Error r = None) rs)),
      failedFiles = failedFiles s + of_nat (length (filter (\<lambda>r. Error r \<noteq> None) rs)),
      totalDuration = totalDuration s + sum_list (map Duration rs)\<rparr>"
  by (induction rs arbitrary: s) (simp_all add: algebra_simps)

lemma displaySummary_closed:
  "displaySummary rs =
     \<lparr>totalFiles = of_nat (length rs),
      totalRecords = sum_list (map RecordCount (filter (\<lambda>r. Error r = None) rs)),
      totalErrors = sum_list (map ErrorCount (filter (\<lambda>r. Error r = None) rs)),
      successfulFiles = of_nat (length (filter (\<lambda>r. Error r = None) rs)),
      failedFiles = of_nat (length (filter (\<lambda>r. Error r \<noteq> None) rs)),
      totalDuration = sum_list (map Duration rs)\<rparr>"
  by (simp add: displaySummary_def displaySummary_loop_closed)

lemma sum_list_filter_mset:
  fixes f :: "'a \<Rightarrow> 'b::comm_monoid_add"
  assumes "mset xs = mset ys"
  shows "sum_list (map f (filter P xs)) = sum_list (map f (filter P ys))"
proof -
  have "sum_list (map f (filter P xs)) = sum_mset (image_mset f (filter_mset P (mset xs)))"
    by (metis mset_filter mset_map sum_mset_sum_list)
  also have "\<dots> = sum_mset (image_mset f (filter_mset P (mset ys)))"
    using assms by simp
  also have "\<dots> = sum_list (map f (filter P ys))"
    by (metis mset_filter mset_map sum_mset_sum_list)
  finally show ?thesis .
qed

lemma length_filter_mset:
  assumes "mset xs = mset ys"
  shows "length (filter P xs) = length (filter P ys)"
  by (metis assms mset_filter size_mset)

text \<open>
  C8. The totals of the summary are the same for every order of the results: two lists
  with the same multiset of results give the same six totals. The totals are: the number
  of results; the sums of the record counts and of the error counts of the results without
  error; the number of results without error; the number of results with an error; the sum
  of the durations of all results. So a failed result counts in the failed files and in the
  duration only.
\<close>

theorem displaySummary_order_insensitive:
  assumes "mset results = mset results'"
  shows "displaySummary results = displaySummary results' \<and>
         displaySummary results =
           \<lparr>totalFiles = of_nat (length results),
            totalRecords =
              sum_list (map RecordCount (filter (\<lambda>r. Error r = None) results)),
            totalErrors = sum_list (map ErrorCount (filter (\<lambda>r. Error r = None) results)),
            successfulFiles = of_nat (length (filter (\<lambda>r. Error r = None) results)),
            failedFiles = of_nat (length (filter (\<lambda>r. Error r \<noteq> None) results)),
            totalDuration = sum_list (map Duration results)\<rparr>"
proof -
  have len: "length results = length results'"
    using assms by (rule mset_eq_length)
  have dur: "sum_list (map Duration results) = sum_list (map Duration results')"
    using sum_list_filter_mset [OF assms, of Duration "\<lambda>r. True"] by simp
  have "displaySummary results = displaySummary results'"
    unfolding displaySummary_closed
    by (simp only: len dur sum_list_filter_mset [OF assms] length_filter_mset [OF assms])
  then show ?thesis
    by (simp add: displaySummary_closed)
qed

theorem displaySummary_order_insensitive_witness:
  "mset [result_failed, result_ok] = mset [result_ok, result_failed] \<and>
   displaySummary [result_failed, result_ok] = displaySummary [result_ok, result_failed] \<and>
   displaySummary [result_failed, result_ok] =
     \<lparr>totalFiles = 2, totalRecords = 2, totalErrors = 1, successfulFiles = 1,
      failedFiles = 1, totalDuration = 12\<rparr>"
proof -
  have m: "mset [result_failed, result_ok] = mset [result_ok, result_failed]"
    by (simp add: add_mset_commute)
  show ?thesis
    using m displaySummary_order_insensitive [OF m]
    by (auto simp: result_failed_def result_ok_def)
qed

subsection \<open>The header row\<close>

lemma fold_upt_Suc:
  "fold g [Suc 0..<Suc n] acc = fold (\<lambda>j. g (Suc j)) [0..<n] acc"
proof -
  have "[Suc 0..<Suc n] = map Suc [0..<n]" by (simp add: map_Suc_upt)
  then show ?thesis by (simp add: fold_map comp_def)
qed

text \<open>
  C2 (amended). A row is a header row exactly when it has at least 3 columns and its first
  column, trimmed and lowercased, contains \<open>timestamp\<close>, \<open>time\<close>, \<open>date\<close> or
  \<open>datetime\<close>, or its first column, trimmed, does not parse as RFC 3339. Only the first
  row of a file is tested: \<open>parseCSVRecords\<close> applies the loop body to every row from
  row 1 on if the first row is a header row, and to every row from row 0 on otherwise.
\<close>

theorem header_row_condition:
  "(isHeaderRow L row \<longleftrightarrow>
      3 \<le> length row \<and>
      (strings_Contains (strings_ToLower L (strings_TrimSpace L (row ! 0))) ''timestamp'' \<or>
       strings_Contains (strings_ToLower L (strings_TrimSpace L (row ! 0))) ''time'' \<or>
       strings_Contains (strings_ToLower L (strings_TrimSpace L (row ! 0))) ''date'' \<or>
       strings_Contains (strings_ToLower L (strings_TrimSpace L (row ! 0))) ''datetime'' \<or>
       time_Parse L RFC3339 (strings_TrimSpace L (row ! 0)) = None)) \<and>
   parseCSVRecords L records fileName =
     fold (\<lambda>j. parseCSVRecords_body L fileName j (records ! j))
       [(if records \<noteq> [] \<and> isHeaderRow L (records ! 0) then 1 else 0)..<length records]
       ([], 0, [])"
  by (auto simp: isHeaderRow_def headerWords_def Let_def parseCSVRecords_def
        parseCSVRecords_loop_fold)

theorem header_row_condition_witness:
  "isHeaderRow (go_lib empty_disk) header_row \<and>
   parseCSVRecords (go_lib empty_disk) [header_row, [''2025-09-05T08:00:00Z'', ''temp_01'', ''21.8'']]
     ''a.csv'' =
     ([\<lparr>Timestamp = Time 1757059200 0, SensorName = ''temp_01'',
        Value = Nearest False 218 1\<rparr>], 0, [])"
proof -
  have r: "3 \<le> length header_row \<and>
      (strings_Contains (strings_ToLower (go_lib empty_disk)
          (strings_TrimSpace (go_lib empty_disk) (header_row ! 0))) ''timestamp'' \<or>
       strings_Contains (strings_ToLower (go_lib empty_disk)
          (strings_TrimSpace (go_lib empty_disk) (header_row ! 0))) ''time'' \<or>
       strings_Contains (strings_ToLower (go_lib empty_disk)
          (strings_TrimSpace (go_lib empty_disk) (header_row ! 0))) ''date'' \<or>
       strings_Contains (strings_ToLower (go_lib empty_disk)
          (strings_TrimSpace (go_lib empty_disk) (header_row ! 0))) ''datetime'' \<or>
       time_Parse (go_lib empty_disk) RFC3339
         (strings_TrimSpace (go_lib empty_disk) (header_row ! 0)) = None)"
    by code_simp
  have h: "isHeaderRow (go_lib empty_disk) header_row"
    using r header_row_condition [where L = "go_lib empty_disk" and row = header_row]
    by blast
  have p: "parseCSVRecords (go_lib empty_disk)
             [header_row, [''2025-09-05T08:00:00Z'', ''temp_01'', ''21.8'']] ''a.csv'' =
           ([\<lparr>Timestamp = Time 1757059200 0, SensorName = ''temp_01'',
              Value = Nearest False 218 1\<rparr>], 0, [])"
    by code_simp
  from h p show ?thesis by (rule conjI)
qed

text \<open>
  The claim without the column count fails: the first row \<open>timestamp,value\<close> contains a
  header word, is not a header row, and is counted as a row with insufficient columns.
\<close>

theorem header_row_counterexample:
  "strings_Contains
     (strings_ToLower (go_lib empty_disk)
        (strings_TrimSpace (go_lib empty_disk) ([''timestamp'', ''value''] ! 0)))
     ''timestamp'' \<and>
   \<not> isHeaderRow (go_lib empty_disk) [''timestamp'', ''value''] \<and>
   parseCSVRecords (go_lib empty_disk) [[''timestamp'', ''value'']] ''a.csv'' =
     ([], 1, [insufficient_columns 1 ''a.csv'' 2])"
  by code_simp

text \<open>
  C10. A first row with at least 3 columns, none of the header words in its first column,
  and a first column that parses in the timezone-less or in the space-separated format but
  not as RFC 3339, is a header row: the result of \<open>parseCSVRecords\<close> is that of the loop
  body on the rows after it, so the row gives no reading and adds no error. Parsed as a data
  row it would not have been an invalid timestamp.
\<close>

theorem non_rfc3339_first_row_skipped:
  assumes "3 \<le> length row"
    and "\<not> strings_Contains (strings_ToLower L (strings_TrimSpace L (row ! 0))) ''timestamp''"
    and "\<not> strings_Contains (strings_ToLower L (strings_TrimSpace L (row ! 0))) ''time''"
    and "\<not> strings_Contains (strings_ToLower L (strings_TrimSpace L (row ! 0))) ''date''"
    and "\<not> strings_Contains (strings_ToLower L (strings_TrimSpace L (row ! 0))) ''datetime''"
    and "time_Parse L RFC3339 (strings_TrimSpace L (row ! 0)) = None"
    and "time_Parse L ''2006-01-02T15:04:05'' (strings_TrimSpace L (row ! 0)) \<noteq> None \<or>
         time_Parse L ''2006-01-02 15:04:05'' (strings_TrimSpace L (row ! 0)) \<noteq> None"
  shows "isHeaderRow L row \<and>
         parseCSVRecords L (row # rest) fileName =
           fold (\<lambda>j. parseCSVRecords_body L fileName (Suc j) (rest ! j)) [0..<length rest]
             ([], 0, []) \<and>
         parseCSVRecords_body L fileName 0 row (sensorData, errorCount, log) \<noteq>
           (sensorData, errorCount + 1,
            log @ [invalid_timestamp_format 1 fileName (strings_TrimSpace L (row ! 0))])"
proof -
  have h: "isHeaderRow L row"
    using assms by (simp add: isHeaderRow_def headerWords_def)
  have "parseCSVRecords L (row # rest) fileName =
        fold (\<lambda>j. parseCSVRecords_body L fileName j ((row # rest) ! j))
          [Suc 0..<Suc (length rest)] ([], 0, [])"
    using h by (simp add: parseCSVRecords_def parseCSVRecords_loop_fold)
  then have p: "parseCSVRecords L (row # rest) fileName =
        fold (\<lambda>j. parseCSVRecords_body L fileName (Suc j) (rest ! j)) [0..<length rest]
          ([], 0, [])"
    by (simp only: fold_upt_Suc nth_Cons_Suc)
  have b: "parseCSVRecords_body L fileName 0 row (sensorData, errorCount, log) \<noteq>
           (sensorData, errorCount + 1,
            log @ [invalid_timestamp_format 1 fileName (strings_TrimSpace L (row ! 0))])"
    using assms by (auto simp: Let_def split: option.splits)
  show ?thesis using h p b by simp
qed

theorem non_rfc3339_first_row_skipped_witness:
  "time_Parse (go_lib empty_disk) RFC3339
     (strings_TrimSpace (go_lib empty_disk) (hd space_separated_rows ! 0)) = None \<and>
   time_Parse (go_lib empty_disk) ''2006-01-02 15:04:05''
     (strings_TrimSpace (go_lib empty_disk) (hd space_separated_rows ! 0)) =
     Some (Time 1757059200 0) \<and>
   isHeaderRow (go_lib empty_disk) (hd space_separated_rows) \<and>
   parseCSVRecords (go_lib empty_disk) space_separated_rows ''a.csv'' =
     ([\<lparr>Timestamp = Time 1757059500 0, SensorName = ''temp_01'',
        Value = Nearest False 221 1\<rparr>], 0, [])"
proof -
  let ?L = "go_lib empty_disk"
  let ?row = "hd space_separated_rows"
  have a1: "3 \<le> length ?row" by code_simp
  have a2: "\<not> strings_Contains (strings_ToLower ?L (strings_TrimSpace ?L (?row ! 0))) ''timestamp''"
    by code_simp
  have a3: "\<not> strings_Contains (strings_ToLower ?L (strings_TrimSpace ?L (?row ! 0))) ''time''"
    by code_simp
  have a4: "\<not> strings_Contains (strings_ToLower ?L (strings_TrimSpace ?L (?row ! 0))) ''date''"
    by code_simp
  have a5: "\<not> strings_Contains (strings_ToLower ?L (strings_TrimSpace ?L (?row ! 0))) ''datetime''"
    by code_simp
  have a6: "time_Parse ?L RFC3339 (strings_TrimSpace ?L (?row ! 0)) = None"
    by code_simp
  have t3: "time_Parse ?L ''2006-01-02 15:04:05'' (strings_TrimSpace ?L (?row ! 0)) =
            Some (Time 1757059200 0)"
    by code_simp
  then have a7: "time_Parse ?L ''2006-01-02T15:04:05'' (strings_TrimSpace ?L (?row ! 0)) \<noteq> None \<or>
         time_Parse ?L ''2006-01-02 15:04:05'' (strings_TrimSpace ?L (?row ! 0)) \<noteq> None"
    by simp
  have h: "isHeaderRow ?L ?row"
    using non_rfc3339_first_row_skipped [OF a1 a2 a3 a4 a5 a6 a7] by blast
  have p: "parseCSVRecords ?L space_separated_rows ''a.csv'' =
     ([\<lparr>Timestamp = Time 1757059500 0, SensorName = ''temp_01'',
        Value = Nearest False 221 1\<rparr>], 0, [])"
    by code_simp
  from a6 t3 h p show ?thesis by blast
qed

subsection \<open>The rows\<close>

text \<open>
  C3. For a row \<open>i\<close> with at least 3 columns, column 0 is trimmed and parsed as RFC 3339,
  then as \<open>2006-01-02T15:04:05\<close>, then as \<open>2006-01-02 15:04:05\<close>. If the three fail,
  the loop goes on to row \<open>i+1\<close> with the same readings, the error count plus one and the
  warning of an invalid timestamp. If \<open>t\<close> is the result of the first format that parses
  (and the name is not empty and the value parses), the reading added has the timestamp
  \<open>t\<close> in UTC.
\<close>

theorem timestamp_formats_in_order:
  assumes "i < length records" and "3 \<le> length (records ! i)"
    and "ts = strings_TrimSpace L (records ! i ! 0)"
  shows
    "(time_Parse L RFC3339 ts = None \<and>
      time_Parse L ''2006-01-02T15:04:05'' ts = None \<and>
      time_Parse L ''2006-01-02 15:04:05'' ts = None \<longrightarrow>
      parseCSVRecords_loop L records fileName i (sensorData, errorCount, log) =
      parseCSVRecords_loop L records fileName (i + 1)
        (sensorData, errorCount + 1,
         log @ [invalid_timestamp_format (i + 1) fileName ts])) \<and>
     ((time_Parse L RFC3339 ts = Some t \<or>
       time_Parse L RFC3339 ts = None \<and>
         time_Parse L ''2006-01-02T15:04:05'' ts = Some t \<or>
       time_Parse L RFC3339 ts = None \<and>
         time_Parse L ''2006-01-02T15:04:05'' ts = None \<and>
         time_Parse L ''2006-01-02 15:04:05'' ts = Some t) \<and>
      strings_TrimSpace L (records ! i ! 1) \<noteq> [] \<and>
      strconv_ParseFloat L (strings_TrimSpace L (records ! i ! 2)) 64 = Some v \<longrightarrow>
      parseCSVRecords_loop L records fileName i (sensorData, errorCount, log) =
      parseCSVRecords_loop L records fileName (i + 1)
        (sensorData @
           [\<lparr>Timestamp = time_UTC L t,
             SensorName = strings_TrimSpace L (records ! i ! 1), Value = v\<rparr>],
         errorCount, log))"
  using assms by (auto simp: parseCSVRecords_loop_step Let_def)

theorem timestamp_formats_in_order_witness:
  "parseCSVRecords_loop (go_lib empty_disk) mixed_rows ''a.csv'' 1 ([], 0, []) =
   parseCSVRecords_loop (go_lib empty_disk) mixed_rows ''a.csv'' 2
     ([\<lparr>Timestamp = Time 1757059200 0, SensorName = ''temp_01'',
        Value = Nearest False 218 1\<rparr>], 0, []) \<and>
   parseCSVRecords_loop (go_lib empty_disk) mixed_rows ''a.csv'' 2 ([], 0, []) =
   parseCSVRecords_loop (go_lib empty_disk) mixed_rows ''a.csv'' 3
     ([], 1, [invalid_timestamp_format 3 ''a.csv'' ''05/09/2025''])"
proof -
  let ?L = "go_lib empty_disk"
  have l1: "1 < length mixed_rows" and l2: "2 < length mixed_rows"
    by code_simp+
  have c1: "3 \<le> length (mixed_rows ! 1)" and c2: "3 \<le> length (mixed_rows ! 2)"
    by code_simp+
  have ts1: "strings_TrimSpace ?L (mixed_rows ! 1 ! 0) = ''2025-09-05 08:00:00''"
    and ts2: "strings_TrimSpace ?L (mixed_rows ! 2 ! 0) = ''05/09/2025''"
    and n1: "strings_TrimSpace ?L (mixed_rows ! 1 ! 1) = ''temp_01''"
    by code_simp+
  have p1: "time_Parse ?L RFC3339 ''2025-09-05 08:00:00'' = None"
    and p2: "time_Parse ?L ''2006-01-02T15:04:05'' ''2025-09-05 08:00:00'' = None"
    and p3: "time_Parse ?L ''2006-01-02 15:04:05'' ''2025-09-05 08:00:00'' =
             Some (Time 1757059200 0)"
    and v: "strconv_ParseFloat ?L (strings_TrimSpace ?L (mixed_rows ! 1 ! 2)) 64 =
            Some (Nearest False 218 1)"
    and u: "time_UTC ?L (Time 1757059200 0) = Time 1757059200 0"
    by code_simp+
  have q1: "time_Parse ?L RFC3339 ''05/09/2025'' = None"
    and q2: "time_Parse ?L ''2006-01-02T15:04:05'' ''05/09/2025'' = None"
    and q3: "time_Parse ?L ''2006-01-02 15:04:05'' ''05/09/2025'' = None"
    by code_simp+
  have ok: "parseCSVRecords_loop ?L mixed_rows ''a.csv'' 1 ([], 0, []) =
     parseCSVRecords_loop ?L mixed_rows ''a.csv'' 2
       ([\<lparr>Timestamp = Time 1757059200 0, SensorName = ''temp_01'',
          Value = Nearest False 218 1\<rparr>], 0, [])"
    using timestamp_formats_in_order [OF l1 c1 ts1 [symmetric],
        where t = "Time 1757059200 0" and v = "Nearest False 218 1"
          and fileName = "''a.csv''" and sensorData = "[]" and errorCount = 0
          and log = "[]"]
      p1 p2 p3 v u n1
    by (simp add: numeral_2_eq_2)
  have bad: "parseCSVRecords_loop ?L mixed_rows ''a.csv'' 2 ([], 0, []) =
     parseCSVRecords_loop ?L mixed_rows ''a.csv'' 3
       ([], 1, [invalid_timestamp_format 3 ''a.csv'' ''05/09/2025''])"
    using timestamp_formats_in_order [OF l2 c2 ts2 [symmetric],
        where fileName = "''a.csv''" and sensorData = "[]" and errorCount = 0
          and log = "[]"]
      q1 q2 q3
    by (simp add: numeral_2_eq_2 numeral_3_eq_3)
  from ok bad show ?thesis by (rule conjI)
qed

text \<open>
  C5 (amended). For a row that passed the column count, the timestamp and the sensor name,
  column 2 is trimmed and given to \<open>strconv.ParseFloat(\<dots>, 64)\<close>. When the call returns
  an error, the loop goes on with the same readings, the error count plus one and the
  warning of an invalid value. When it returns a value, that value is the one of the
  reading added, whatever it is: there is no test that it is finite.
\<close>

theorem value_parse_outcomes:
  assumes "i < length records" and "3 \<le> length (records ! i)"
    and "ts = strings_TrimSpace L (records ! i ! 0)"
    and "time_Parse L RFC3339 ts = Some t \<or>
         time_Parse L RFC3339 ts = None \<and>
           time_Parse L ''2006-01-02T15:04:05'' ts = Some t \<or>
         time_Parse L RFC3339 ts = None \<and>
           time_Parse L ''2006-01-02T15:04:05'' ts = None \<and>
           time_Parse L ''2006-01-02 15:04:05'' ts = Some t"
    and "strings_TrimSpace L (records ! i ! 1) \<noteq> []"
    and "valueStr = strings_TrimSpace L (records ! i ! 2)"
  shows
    "(strconv_ParseFloat L valueStr 64 = None \<longrightarrow>
      parseCSVRecords_loop L records fileName i (sensorData, errorCount, log) =
      parseCSVRecords_loop L records fileName (i + 1)
        (sensorData, errorCount + 1, log @ [invalid_value (i + 1) fileName valueStr])) \<and>
     (strconv_ParseFloat L valueStr 64 = Some v \<longrightarrow>
      parseCSVRecords_loop L records fileName i (sensorData, errorCount, log) =
      parseCSVRecords_loop L records fileName (i + 1)
        (sensorData @
           [\<lparr>Timestamp = time_UTC L t,
             SensorName = strings_TrimSpace L (records ! i ! 1), Value = v\<rparr>],
         errorCount, log))"
  using assms by (auto simp: parseCSVRecords_loop_step Let_def)

theorem value_parse_outcomes_witness:
  "parseCSVRecords_loop (go_lib empty_disk) mixed_rows ''a.csv'' 3 ([], 0, []) =
   parseCSVRecords_loop (go_lib empty_disk) mixed_rows ''a.csv'' 4
     ([], 1, [invalid_value 4 ''a.csv'' ''abc'']) \<and>
   parseCSVRecords_loop (go_lib empty_disk) mixed_rows ''a.csv'' 1 ([], 0, []) =
   parseCSVRecords_loop (go_lib empty_disk) mixed_rows ''a.csv'' 2
     ([\<lparr>Timestamp = Time 1757059200 0, SensorName = ''temp_01'',
        Value = Nearest False 218 1\<rparr>], 0, [])"
proof -
  let ?L = "go_lib empty_disk"
  have l1: "1 < length mixed_rows" and l3: "3 < length mixed_rows"
    by code_simp+
  have c1: "3 \<le> length (mixed_rows ! 1)" and c3: "3 \<le> length (mixed_rows ! 3)"
    by code_simp+
  have ts1: "strings_TrimSpace ?L (mixed_rows ! 1 ! 0) = ''2025-09-05 08:00:00''"
    and ts3: "strings_TrimSpace ?L (mixed_rows ! 3 ! 0) = ''2025-09-05T08:10:00Z''"
    and n1: "strings_TrimSpace ?L (mixed_rows ! 1 ! 1) = ''temp_01''"
    and n3: "strings_TrimSpace ?L (mixed_rows ! 3 ! 1) = ''temp_01''"
    and v1: "strings_TrimSpace ?L (mixed_rows ! 1 ! 2) = ''21.8''"
    and v3: "strings_TrimSpace ?L (mixed_rows ! 3 ! 2) = ''abc''"
    by code_simp+
  have p1: "time_Parse ?L RFC3339 ''2025-09-05 08:00:00'' = None \<and>
            time_Parse ?L ''2006-01-02T15:04:05'' ''2025-09-05 08:00:00'' = None \<and>
            time_Parse ?L ''2006-01-02 15:04:05'' ''2025-09-05 08:00:00'' =
              Some (Time 1757059200 0)"
    and p3: "time_Parse ?L RFC3339 ''2025-09-05T08:10:00Z'' = Some (Time 1757059800 0)"
    and f1: "strconv_ParseFloat ?L ''21.8'' 64 = Some (Nearest False 218 1)"
    and f3: "strconv_ParseFloat ?L ''abc'' 64 = None"
    and u: "time_UTC ?L (Time 1757059200 0) = Time 1757059200 0"
    by code_simp+
  have ne1: "strings_TrimSpace ?L (mixed_rows ! 1 ! 1) \<noteq> []"
    and ne3: "strings_TrimSpace ?L (mixed_rows ! 3 ! 1) \<noteq> []"
    using n1 n3 by simp_all
  have bad: "parseCSVRecords_loop ?L mixed_rows ''a.csv'' 3 ([], 0, []) =
     parseCSVRecords_loop ?L mixed_rows ''a.csv'' 4
       ([], 1, [invalid_value 4 ''a.csv'' ''abc''])"
    using value_parse_outcomes [OF l3 c3 ts3 [symmetric] disjI1 [OF p3] ne3 v3 [symmetric],
        where fileName = "''a.csv''" and sensorData = "[]" and errorCount = 0
          and log = "[]"]
      f3
    by (simp add: numeral_3_eq_3 numeral_eq_Suc)
  have ok: "parseCSVRecords_loop ?L mixed_rows ''a.csv'' 1 ([], 0, []) =
     parseCSVRecords_loop ?L mixed_rows ''a.csv'' 2
       ([\<lparr>Timestamp = Time 1757059200 0, SensorName = ''temp_01'',
          Value = Nearest False 218 1\<rparr>], 0, [])"
    using value_parse_outcomes
        [OF l1 c1 ts1 [symmetric] disjI2 [OF disjI2 [OF p1]] ne1 v1 [symmetric],
         where v = "Nearest False 218 1" and fileName = "''a.csv''" and sensorData = "[]"
           and errorCount = 0 and log = "[]"]
      f1 u n1
    by (simp add: numeral_2_eq_2)
  from bad ok show ?thesis by (rule conjI)
qed

text \<open>
  The claim that a value which is not finite is an error fails: \<open>ParseFloat\<close> accepts
  \<open>NaN\<close> and \<open>-Inf\<close>, and both rows give a reading.
\<close>

theorem non_finite_value_counterexample:
  "parseCSVRecords (go_lib empty_disk)
     [[''2025-09-05T08:00:00Z'', ''temp_01'', ''NaN''],
      [''2025-09-05T08:05:00Z'', ''temp_01'', ''-Inf'']] ''a.csv'' =
   ([\<lparr>Timestamp = Time 1757059200 0, SensorName = ''temp_01'', Value = NaN\<rparr>,
     \<lparr>Timestamp = Time 1757059500 0, SensorName = ''temp_01'', Value = Inf True\<rparr>],
    0, [])"
  by code_simp

text \<open>
  C1 (amended). The file whose rows are \<open>bad_ts,temp_01,21.8\<close>,
  \<open>2025-09-05T08:00:00Z,,21.8\<close> and \<open>2025-09-05T08:00:00Z,temp_01,notanumber\<close>
  gives RecordCount 0 and ErrorCount 2: the first row does not parse as RFC 3339, so it is
  a header row and is skipped; row 2 is an empty sensor name and row 3 an invalid value.
  The hypotheses say what the library answers on the strings of the file.
\<close>

theorem three_bad_rows_result:
  assumes trim: "\<forall>s \<in> set (concat three_rows). strings_TrimSpace L s = s"
    and lower: "strings_ToLower L ''bad_ts'' = ''bad_ts''"
    and bad: "time_Parse L RFC3339 ''bad_ts'' = None"
    and good: "time_Parse L RFC3339 ''2025-09-05T08:00:00Z'' = Some t"
    and nan: "strconv_ParseFloat L ''notanumber'' 64 = None"
    and opened: "os_Open L (FileJob.FilePath job) = Inr h"
    and read: "csv_ReadAll L h = Inr three_rows"
  shows "isHeaderRow L (three_rows ! 0) \<and>
         parseCSVRecords L three_rows (FileName job) =
           ([], 2, [empty_sensor_name 2 (FileName job),
                    invalid_value 3 (FileName job) ''notanumber'']) \<and>
         processCSVFile L G elapsed db job =
           (\<lparr>FilePath = FileJob.FilePath job, RecordCount = 0, ErrorCount = 2,
             Duration = elapsed, Error = None\<rparr>,
            db,
            [empty_sensor_name 2 (FileName job),
             invalid_value 3 (FileName job) ''notanumber''])"
proof -
  have t: "strings_TrimSpace L ''bad_ts'' = ''bad_ts''"
    "strings_TrimSpace L ''2025-09-05T08:00:00Z'' = ''2025-09-05T08:00:00Z''"
    "strings_TrimSpace L [] = []"
    "strings_TrimSpace L ''temp_01'' = ''temp_01''"
    "strings_TrimSpace L ''notanumber'' = ''notanumber''"
    using trim by (simp_all add: three_rows_def)
  have h: "isHeaderRow L (three_rows ! 0)"
    by (simp add: three_rows_def isHeaderRow_def headerWords_def t lower bad)
  have p: "parseCSVRecords L three_rows (FileName job) =
           ([], 2, [empty_sensor_name 2 (FileName job),
                    invalid_value 3 (FileName job) ''notanumber''])"
    using h
    by (simp add: parseCSVRecords_def three_rows_def parseCSVRecords_loop_step
          parseCSVRecords_loop_end t good nan numeral_2_eq_2 numeral_3_eq_3)
  have ne: "three_rows \<noteq> []"
    by (simp add: three_rows_def)
  have "processCSVFile L G elapsed db job =
           (\<lparr>FilePath = FileJob.FilePath job, RecordCount = 0, ErrorCount = 2,
             Duration = elapsed, Error = None\<rparr>,
            db,
            [empty_sensor_name 2 (FileName job),
             invalid_value 3 (FileName job) ''notanumber''])"
    using ne by (simp add: processCSVFile_def opened read p)
  with h p show ?thesis by simp
qed

theorem three_bad_rows_result_witness:
  "isHeaderRow (go_lib three_rows_disk) (three_rows ! 0) \<and>
   parseCSVRecords (go_lib three_rows_disk) three_rows (FileName three_rows_job) =
     ([], 2, [empty_sensor_name 2 (FileName three_rows_job),
              invalid_value 3 (FileName three_rows_job) ''notanumber'']) \<and>
   processCSVFile (go_lib three_rows_disk) store 7 [] three_rows_job =
     (\<lparr>FilePath = FileJob.FilePath three_rows_job, RecordCount = 0, ErrorCount = 2,
       Duration = 7, Error = None\<rparr>,
      [],
      [empty_sensor_name 2 (FileName three_rows_job),
       invalid_value 3 (FileName three_rows_job) ''notanumber''])"
proof -
  let ?L = "go_lib three_rows_disk"
  have trim: "\<forall>s \<in> set (concat three_rows). strings_TrimSpace ?L s = s"
    by code_simp
  have lower: "strings_ToLower ?L ''bad_ts'' = ''bad_ts''"
    and bad: "time_Parse ?L RFC3339 ''bad_ts'' = None"
    and good: "time_Parse ?L RFC3339 ''2025-09-05T08:00:00Z'' = Some (Time 1757059200 0)"
    and nan: "strconv_ParseFloat ?L ''notanumber'' 64 = None"
    and opened: "os_Open ?L (FileJob.FilePath three_rows_job) = Inr three_rows_text"
    and read: "csv_ReadAll ?L three_rows_text = Inr three_rows"
    by code_simp+
  show ?thesis
    by (rule three_bad_rows_result [OF trim lower bad good nan opened read])
qed

text \<open>The file read from the disk: the error count is 2, not 3.\<close>

theorem three_bad_rows_counterexample:
  "csv_ReadAll (go_lib three_rows_disk) three_rows_text = Inr three_rows \<and>
   processCSVFile (go_lib three_rows_disk) store 0 [] three_rows_job =
     (\<lparr>FilePath = ''data/three.csv'', RecordCount = 0, ErrorCount = 2, Duration = 0,
       Error = None\<rparr>,
      [],
      [empty_sensor_name 2 ''three.csv'', invalid_value 3 ''three.csv'' ''notanumber'']) \<and>
   ErrorCount (fst (processCSVFile (go_lib three_rows_disk) store 0 [] three_rows_job)) \<noteq> 3"
  by code_simp

end
